theory Spec2Isabelle
  imports
    Complex_Main
    "HOL-Library.Word"
    "HOL-Library.Signed_Division"
    "HOL-Library.Multiset"
begin

section \<open>httpmon: a shallow embedding of \<open>httpmon.cc\<close>\<close>

text \<open>
  The program is one C++ file. Its pure part is the quantile estimator (\<open>median\<close>,
  \<open>quartiles\<close>); its stateful part is the control block \<open>HttpClientControl\<close>
  shared by the client threads and the reporting loop of \<open>main\<close>.

  Conventions of the embedding:
  \<^item> a \<open>double\<close> is a \<open>real\<close>: rounding, infinities and NaN are not represented;
  \<^item> a C \<open>int\<close> is an \<open>int\<close> known to lie in \<open>[-2^31, 2^31)\<close>: narrowing to
    \<open>int\<close> is \<open>to_int\<close> (reduction modulo \<open>2^32\<close>), and a signed operation whose
    result leaves the range is the fault \<open>SignedOverflow\<close>;
  \<^item> a \<open>uint32_t\<close> is a \<open>32 word\<close>; a \<open>size_t\<close> is a \<open>nat\<close>, 64 bits wide where it
    is converted;
  \<^item> undefined behaviour and uncaught exceptions are values of type \<open>fault\<close>, and a
    function that may hit one returns \<open>fault + 'a\<close>;
  \<^item> a block that runs under \<open>control.mutex\<close> is one atomic state transformer.
\<close>

subsection \<open>Faults\<close>

datatype fault =
    LogicError string \<comment> \<open>\<open>throw std::logic_error(msg)\<close>, never caught in the program\<close>
  | OutOfRange \<comment> \<open>an iterator dereferenced outside its vector\<close>
  | SignedOverflow \<comment> \<open>signed \<open>int\<close> arithmetic leaving the range of \<open>int\<close>\<close>
  | DivisionByZero \<comment> \<open>integer division by zero\<close>
  | FloatToInt \<comment> \<open>a \<open>double\<close> converted to \<open>int\<close> with no representable result\<close>
  | ArrayBound \<comment> \<open>an array declared with a bound that is not positive\<close>

definition and_then :: "fault + 'a \<Rightarrow> ('a \<Rightarrow> fault + 'b) \<Rightarrow> fault + 'b" where
  \<comment> \<open>sequencing: the first fault ends the computation\<close>
  "and_then m k = (case m of Inl f \<Rightarrow> Inl f | Inr x \<Rightarrow> k x)"

subsection \<open>C integers\<close>

definition INT_MIN :: int where
  "INT_MIN = - (2 ^ 31)"

definition INT_MAX :: int where
  "INT_MAX = 2 ^ 31 - 1"

definition in_int :: "int \<Rightarrow> bool" where
  "in_int k = (INT_MIN \<le> k \<and> k \<le> INT_MAX)"

definition to_int :: "int \<Rightarrow> int" where
  \<comment> \<open>conversion of a wider integer to \<open>int\<close>: the value modulo \<open>2^32\<close>\<close>
  "to_int k = (k + 2 ^ 31) mod 2 ^ 32 - 2 ^ 31"

subsection \<open>The quantile estimator\<close>

text \<open>
  An iterator into the vector \<open>a\<close> is its offset from \<open>a.begin()\<close>, an \<open>int\<close>.
  Dereferencing it is defined exactly when the offset lies in \<open>[0, a.size())\<close>.
\<close>

definition deref :: "real list \<Rightarrow> int \<Rightarrow> fault + real" where
  "deref a i = (if 0 \<le> i \<and> i < int (length a) then Inr (a ! nat i) else Inl OutOfRange)"

text \<open>
  \<^verbatim>\<open>
  int n = end - begin;
  if ((n-1) % 2 == 0)
      return *(begin+(n-1)/2);
  else
      return (*(begin+(n-1)/2) + *(begin+(n-1)/2+1))/2;
  \<close>
  \<open>%\<close> and \<open>/\<close> on \<open>int\<close> truncate towards zero (\<open>smod\<close>, \<open>sdiv\<close>).
\<close>

definition median :: "real list \<Rightarrow> int \<Rightarrow> int \<Rightarrow> fault + real" where
  "median a b e =
     (let n = to_int (e - b) in
      if \<not> in_int (n - 1) then Inl SignedOverflow
      else if (n - 1) smod 2 = 0 then deref a (b + (n - 1) sdiv 2)
      else
        and_then (deref a (b + (n - 1) sdiv 2)) (\<lambda>x.
        and_then (deref a (b + (n - 1) sdiv 2 + 1)) (\<lambda>y.
          Inr ((x + y) / 2))))"

text \<open>
  \<open>quartiles\<close> sorts the vector in place and returns the array
  \<open>[minimum, first quartile, median, third quartile, maximum]\<close>. The caller never reads
  its vector again, so the model returns the array only.
\<close>

definition quartiles :: "real list \<Rightarrow> fault + real list" where
  "quartiles a0 =
     (let n = length a0 in
      if n < 1 then Inl (LogicError ''No data to compute quartiles on'')
      else
        let a = sort a0 in
        and_then (deref a 0) (\<lambda>r0.
        and_then (deref a (int n - 1)) (\<lambda>r4.
        and_then (median a 0 (int n)) (\<lambda>r2.
        and_then (median a 0 (int (n div 2))) (\<lambda>r1.
        and_then (median a (int (n div 2)) (int n)) (\<lambda>r3.
          Inr [r0, r1, r2, r3, r4]))))))"

subsection \<open>The marker scan of the write callback\<close>

definition SpecialRecommendationMarker :: int where
  "SpecialRecommendationMarker = 128"

text \<open>
  \<open>memchr s c n\<close> of the C library: the position of the first byte among the first \<open>n\<close>
  bytes of \<open>s\<close> that equals \<open>c\<close> converted to \<open>unsigned char\<close>, or \<open>None\<close> for the
  null pointer. Scanning past the end of the buffer is a fault.
\<close>

fun memchr :: "8 word list \<Rightarrow> int \<Rightarrow> nat \<Rightarrow> fault + nat option" where
  "memchr s c 0 = Inr None"
| "memchr [] c (Suc n) = Inl OutOfRange"
| "memchr (x # s) c (Suc n) =
     (if x = word_of_int c then Inr (Some 0)
      else (case memchr s c n of Inl f \<Rightarrow> Inl f | Inr r \<Rightarrow> Inr (map_option Suc r)))"

text \<open>
  \<^verbatim>\<open>
  bool *recommendation = (bool *)userdata;
  if (memchr(ptr, SpecialRecommendationMarker, size*nmemb) != NULL)
      *recommendation = true;
  return size * nmemb;
  \<close>
  The result is the pair of the returned count and the flag behind \<open>userdata\<close>; \<open>sz\<close>
  is the parameter \<open>size\<close>. The product \<open>size*nmemb\<close> is the byte count of an existing
  buffer, so it does not wrap.
\<close>

definition nullWriter :: "8 word list \<Rightarrow> nat \<Rightarrow> nat \<Rightarrow> bool \<Rightarrow> fault + nat \<times> bool" where
  "nullWriter ptr sz nmemb recommendation =
     and_then (memchr ptr SpecialRecommendationMarker (sz * nmemb)) (\<lambda>found.
       Inr (sz * nmemb, if found \<noteq> None then True else recommendation))"

text \<open>
  \<open>curl_easy_perform\<close> hands the response body to the write callback chunk by chunk, in
  order, each call with \<open>size = 1\<close> and \<open>nmemb\<close> the length of the chunk; the flag
  behind \<open>CURLOPT_WRITEDATA\<close> is threaded through the calls. A callback that returns
  another count than it was given aborts the transfer.
\<close>

fun curl_easy_perform_body :: "8 word list list \<Rightarrow> bool \<Rightarrow> fault + bool" where
  "curl_easy_perform_body [] recommendation = Inr recommendation"
| "curl_easy_perform_body (chunk # chunks) recommendation =
     (case nullWriter chunk 1 (length chunk) recommendation of
        Inl f \<Rightarrow> Inl f
      | Inr (taken, recommendation') \<Rightarrow>
          if taken = length chunk then curl_easy_perform_body chunks recommendation'
          else Inr recommendation')"

subsection \<open>The shared control block and the client loop\<close>

record HttpClientControl =
  url :: string
  timeout :: int
  running :: bool
  numErrors :: "32 word"
  numRecommendations :: "32 word"
  latencies :: "real list"

text \<open>
  One request of \<open>httpClientMain\<close>: \<open>recommendation = false\<close>, then the transfer. The
  value is the flag after the transfer.
\<close>

definition httpClientMain_request :: "8 word list list \<Rightarrow> fault + bool" where
  "httpClientMain_request chunks = curl_easy_perform_body chunks False"

text \<open>
  The block of \<open>httpClientMain\<close> under the lock:
  \<^verbatim>\<open>
  if (error) control.numErrors ++;
  if (recommendation) control.numRecommendations ++;
  control.latencies.push_back(latency);
  \<close>
\<close>

definition httpClientMain_publish ::
    "bool \<Rightarrow> bool \<Rightarrow> real \<Rightarrow> HttpClientControl \<Rightarrow> HttpClientControl" where
  "httpClientMain_publish err recommendation latency control =
     (let c1 = (if err then control\<lparr>numErrors := numErrors control + 1\<rparr> else control);
          c2 = (if recommendation
                then c1\<lparr>numRecommendations := numRecommendations c1 + 1\<rparr> else c1)
      in c2\<lparr>latencies := latencies c2 @ [latency]\<rparr>)"

text \<open>
  One iteration of the loop of \<open>httpClientMain\<close>: the request, then the locked block.
  The chunks of the body, the error status of \<open>curl_easy_perform\<close> and the measured
  latency come from outside.
\<close>

definition httpClientMain_iteration ::
    "8 word list list \<Rightarrow> bool \<Rightarrow> real \<Rightarrow> HttpClientControl \<Rightarrow> fault + HttpClientControl" where
  "httpClientMain_iteration chunks err latency control =
     and_then (httpClientMain_request chunks) (\<lambda>recommendation.
       Inr (httpClientMain_publish err recommendation latency control))"

text \<open>
  An outcome is \<open>(error, recommendation, latency)\<close>. The lock serialises the blocks of
  all client threads, so any interleaving of them is a list of outcomes in lock order.
\<close>

type_synonym outcome = "bool \<times> bool \<times> real"

fun publish_all :: "outcome list \<Rightarrow> HttpClientControl \<Rightarrow> HttpClientControl" where
  "publish_all [] control = control"
| "publish_all ((err, recommendation, latency) # rest) control =
     publish_all rest (httpClientMain_publish err recommendation latency control)"

subsection \<open>The reporting loop of \<open>main\<close>\<close>

text \<open>
  The block of \<open>main\<close> under the lock copies the three fields into the locals
  \<open>int numErrors\<close>, \<open>int numRecommendations\<close> and \<open>latencies\<close>, then clears them.
  A \<open>uint32_t\<close> converted to \<open>int\<close> is read as two's complement.
\<close>

definition main_drain ::
    "HttpClientControl \<Rightarrow> (int \<times> int \<times> real list) \<times> HttpClientControl" where
  "main_drain control =
     ((sint (numErrors control), sint (numRecommendations control), latencies control),
      control\<lparr>numErrors := 0, numRecommendations := 0, latencies := []\<rparr>)"

definition double_to_int :: "real \<Rightarrow> fault + int" where
  \<comment> \<open>truncation towards zero; undefined when the result is not an \<open>int\<close>\<close>
  "double_to_int x =
     (let k = (if 0 \<le> x then \<lfloor>x\<rfloor> else \<lceil>x\<rceil>) in
      if in_int k then Inr k else Inl FloatToInt)"

definition main_throughput :: "nat \<Rightarrow> real \<Rightarrow> real \<Rightarrow> fault + int" where
  \<comment> \<open>\<open>int throughput = (double)latencies.size() / (reportTime - lastReportTime)\<close>;
      a zero divisor gives an infinity or NaN, which has no \<open>int\<close> value\<close>
  "main_throughput sz reportTime lastReportTime =
     (if reportTime - lastReportTime = 0 then Inl FloatToInt
      else double_to_int (real sz / (reportTime - lastReportTime)))"

definition main_recommendationRate :: "int \<Rightarrow> nat \<Rightarrow> fault + int" where
  \<comment> \<open>\<open>int recommendationRate = numRecommendations * 100 / latencies.size()\<close>: the
      product is an \<open>int\<close>, converted to the 64-bit \<open>size_t\<close> for the unsigned division,
      and the quotient is converted back to \<open>int\<close>\<close>
  "main_recommendationRate nrec sz =
     (if \<not> in_int (nrec * 100) then Inl SignedOverflow
      else if sz = 0 then Inl DivisionByZero
      else Inr (to_int (((nrec * 100) mod 2 ^ 64) div int sz)))"

record report =
  rep_latency :: "int list"
  rep_throughput :: int
  rep_rr :: int
  rep_errors :: int

definition main_report :: "int \<Rightarrow> int \<Rightarrow> real list \<Rightarrow> real \<Rightarrow> real \<Rightarrow> fault + report" where
  "main_report nerr nrec lats reportTime lastReportTime =
     and_then (main_throughput (length lats) reportTime lastReportTime) (\<lambda>throughput.
     and_then (main_recommendationRate nrec (length lats)) (\<lambda>recommendationRate.
     and_then (quartiles lats) (\<lambda>latencyQuartiles.
     and_then (double_to_int (latencyQuartiles ! 0 * 1000)) (\<lambda>l0.
     and_then (double_to_int (latencyQuartiles ! 1 * 1000)) (\<lambda>l1.
     and_then (double_to_int (latencyQuartiles ! 2 * 1000)) (\<lambda>l2.
     and_then (double_to_int (latencyQuartiles ! 3 * 1000)) (\<lambda>l3.
     and_then (double_to_int (latencyQuartiles ! 4 * 1000)) (\<lambda>l4.
       Inr \<lparr>rep_latency = [l0, l1, l2, l3, l4], rep_throughput = throughput,
            rep_rr = recommendationRate, rep_errors = nerr\<rparr>))))))))"

text \<open>
  One iteration of the reporting loop after the wait: drain under the lock, then compute
  the line to print. \<open>reportTime\<close> is the clock read inside the locked block.
\<close>

definition main_tick ::
    "HttpClientControl \<Rightarrow> real \<Rightarrow> real \<Rightarrow> (fault + report) \<times> HttpClientControl" where
  "main_tick control reportTime lastReportTime =
     (case main_drain control of
        ((nerr, nrec, lats), control') \<Rightarrow>
          (main_report nerr nrec lats reportTime lastReportTime, control'))"

subsection \<open>Startup of \<open>main\<close>\<close>

text \<open>
  The input is what \<open>boost::program_options\<close> stored after parsing: whether \<open>--help\<close>
  was given, and the value of each option that was given. \<open>url\<close> has no default (the
  string stays empty), \<open>concurrency\<close> defaults to 100 and \<open>timeout\<close> to 9.
\<close>

record options =
  opt_help :: bool
  opt_url :: "string option"
  opt_concurrency :: "int option"
  opt_timeout :: "int option"

datatype printed = OptionsDescription

datatype startup =
    Exit int "printed list" \<comment> \<open>\<open>return\<close> from \<open>main\<close> with this status, after this output\<close>
  | Started HttpClientControl nat \<comment> \<open>the control block and the number of threads started\<close>

definition url_of :: "options \<Rightarrow> string" where
  "url_of opts = (case opt_url opts of None \<Rightarrow> [] | Some u \<Rightarrow> u)"

definition concurrency_of :: "options \<Rightarrow> int" where
  "concurrency_of opts = (case opt_concurrency opts of None \<Rightarrow> 100 | Some c \<Rightarrow> c)"

definition timeout_of :: "options \<Rightarrow> int" where
  "timeout_of opts = (case opt_timeout opts of None \<Rightarrow> 9 | Some t \<Rightarrow> t)"

text \<open>
  \<open>std::thread httpClientThreads[concurrency]\<close> is an array of run-time bound; a bound
  that is not positive is undefined. Otherwise the loop starts one thread per element.
\<close>

definition main_startup :: "options \<Rightarrow> fault + startup" where
  "main_startup opts =
     (if opt_help opts then Inr (Exit 1 [OptionsDescription])
      else
        let control = \<lparr>url = url_of opts, timeout = timeout_of opts, running = True,
                       numErrors = 0, numRecommendations = 0, latencies = []\<rparr>
        in if concurrency_of opts \<le> 0 then Inl ArrayBound
           else Inr (Started control (nat (concurrency_of opts))))"

section \<open>Properties\<close>

subsection \<open>Evaluation rules\<close>

lemmas c_int_defs = to_int_def in_int_def INT_MIN_def INT_MAX_def
  signed_modulo_int_def signed_divide_int_def

lemmas quantile_defs = quartiles_def median_def deref_def and_then_def

lemmas report_defs = main_tick_def main_drain_def main_report_def main_throughput_def
  main_recommendationRate_def double_to_int_def

lemmas startup_defs = main_startup_def concurrency_of_def url_of_def timeout_of_def

subsection \<open>C integers\<close>

lemma to_int_id: "- (2 ^ 31) \<le> k \<Longrightarrow> k < 2 ^ 31 \<Longrightarrow> to_int k = k"
  by (simp add: to_int_def)

lemma sdiv2_nonneg: "0 \<le> k \<Longrightarrow> k sdiv 2 = k div (2::int)"
  by (simp add: signed_divide_int_def sgn_if)

lemma smod2_nonneg: "0 \<le> k \<Longrightarrow> k smod 2 = k mod (2::int)"
  by (simp add: signed_modulo_int_def sgn_if)

lemma sint_of_nat_32: "sint (word_of_nat n :: 32 word) = to_int (int n)"
proof -
  have "sint (word_of_int (int n) :: 32 word) = to_int (int n)"
    unfolding int_word_sint to_int_def by simp
  then show ?thesis by simp
qed

subsection \<open>The median of a range\<close>

lemma deref_nat: "i < length a \<Longrightarrow> deref a (int i) = Inr (a ! i)"
  by (simp add: deref_def)

text \<open>
  On a non-empty range \<open>[lo, hi)\<close> of fewer than \<open>2^31\<close> elements inside the vector,
  \<open>n\<close> is the length of the range, no fault occurs, and the indices are the middle ones.
\<close>

lemma median_nat:
  assumes "lo < hi" and "hi \<le> length a" and "hi - lo < 2 ^ 31"
  shows "median a (int lo) (int hi) =
           Inr (if odd (hi - lo) then a ! (lo + (hi - lo - 1) div 2)
                else (a ! (lo + (hi - lo - 1) div 2) + a ! (lo + (hi - lo - 1) div 2 + 1)) / 2)"
proof -
  define n where "n = hi - lo"
  define k where "k = lo + (n - 1) div 2"
  have n: "0 < n" "n < 2 ^ 31" "lo + n \<le> length a" "int hi - int lo = int n"
    using assms by (simp_all add: n_def)
  have t: "to_int (int n) = int n"
    using n by (intro to_int_id) simp_all
  have r: "in_int (int n - 1)"
    using n by (simp add: in_int_def INT_MIN_def INT_MAX_def)
  have d: "int lo + (int n - 1) sdiv 2 = int k"
    using n by (simp add: k_def sdiv2_nonneg of_nat_diff zdiv_int)
  have m: "((int n - 1) smod 2 = 0) = odd n"
    using n by (simp add: smod2_nonneg) presburger
  have i1: "k < length a"
    using n unfolding k_def by linarith
  have i2: "k + 1 < length a" if "even n"
    using n that unfolding k_def by (elim evenE) auto
  have e: "int k + 1 = int (k + 1)" by simp
  have unf: "median a (int lo) (int hi) =
      (if odd n then deref a (int k)
       else and_then (deref a (int k))
              (\<lambda>x. and_then (deref a (int (k + 1))) (\<lambda>y. Inr ((x + y) / 2))))"
    unfolding median_def n(4) t Let_def d m e using r
    by (simp only: not_True_eq_False if_False simp_thms)
  show ?thesis
  proof (cases "odd n")
    case True
    then show ?thesis
      unfolding unf n_def [symmetric] k_def [symmetric] using i1 by (simp add: deref_nat)
  next
    case False
    then show ?thesis
      unfolding unf n_def [symmetric] k_def [symmetric]
      using i1 i2 by (simp add: deref_nat and_then_def del: of_nat_add of_nat_Suc)
  qed
qed

text \<open>In a sorted vector the median of a range lies between its first and last element.\<close>

lemma median_between:
  assumes "sorted a" and "lo < hi" and "hi \<le> length a" and "hi - lo < 2 ^ 31"
  shows "\<exists>v. median a (int lo) (int hi) = Inr v \<and> a ! lo \<le> v \<and> v \<le> a ! (hi - 1)"
proof -
  define n where "n = hi - lo"
  define k where "k = lo + (n - 1) div 2"
  have n: "0 < n" "lo + n \<le> length a" "hi - 1 = lo + n - 1"
    using assms by (simp_all add: n_def)
  have k1: "lo \<le> k" "k \<le> hi - 1" "hi - 1 < length a"
    using n by (simp_all add: k_def)
  have k2: "even n \<Longrightarrow> k + 1 \<le> hi - 1"
    using n unfolding k_def by (elim evenE) auto
  have a1: "a ! lo \<le> a ! k" "a ! k \<le> a ! (hi - 1)"
    using assms(1) k1 by (auto intro!: sorted_nth_mono)
  have a2: "even n \<Longrightarrow> a ! lo \<le> a ! (k + 1) \<and> a ! (k + 1) \<le> a ! (hi - 1)"
    using assms(1) k1 k2 by (auto intro!: sorted_nth_mono)
  show ?thesis
    unfolding median_nat [OF assms(2-4)] n_def [symmetric] k_def [symmetric]
    using a1 a2 by auto
qed

text \<open>The median of a whole sorted vector lies between the two elements around \<open>n/2\<close>.\<close>

lemma median_middle:
  assumes "sorted a" and "2 \<le> length a" and "length a < 2 ^ 31"
  shows "\<exists>v. median a 0 (int (length a)) = Inr v \<and>
              a ! (length a div 2 - 1) \<le> v \<and> v \<le> a ! (length a div 2)"
proof -
  let ?n = "length a"
  have m: "median a 0 (int ?n) = Inr (if odd ?n then a ! ((?n - 1) div 2)
                else (a ! ((?n - 1) div 2) + a ! ((?n - 1) div 2 + 1)) / 2)"
  proof -
    have "0 < ?n" "?n \<le> length a" "?n - 0 < 2 ^ 31"
      using assms by auto
    from median_nat [OF this] show ?thesis by simp
  qed
  have s: "a ! (?n div 2 - 1) \<le> a ! (?n div 2)"
    using assms(1,2) by (intro sorted_nth_mono) simp_all
  show ?thesis
  proof (cases "odd ?n")
    case True
    then have "(?n - 1) div 2 = ?n div 2" by (elim oddE) simp
    with True m s show ?thesis by simp
  next
    case False
    then have i: "(?n - 1) div 2 = ?n div 2 - 1" "(?n - 1) div 2 + 1 = ?n div 2"
      using assms(2) by (auto elim!: evenE)
    define v where "v = (a ! (?n div 2 - 1) + a ! (?n div 2)) / 2"
    have "median a 0 (int ?n) = Inr v"
      unfolding m v_def using False i by simp
    moreover have "a ! (?n div 2 - 1) \<le> v" "v \<le> a ! (?n div 2)"
      using s by (simp_all add: v_def)
    ultimately show ?thesis by blast
  qed
qed

subsection \<open>The quantile estimator\<close>

lemma and_then_Inr: "and_then m k = Inr y \<Longrightarrow> \<exists>x. m = Inr x \<and> k x = Inr y"
  by (cases m) (simp_all add: and_then_def)

text \<open>Whenever \<open>quartiles\<close> returns, it returns the five elements of its array.\<close>

lemma quartiles_length: "quartiles a = Inr q \<Longrightarrow> length q = 5"
  unfolding quartiles_def Let_def
  by (auto split: if_splits dest!: and_then_Inr)

text \<open>
  C8. On an empty sample \<open>quartiles\<close> returns no value: it throws
  \<open>std::logic_error("No data to compute quartiles on")\<close>, the same fault on every call.
\<close>

theorem quartiles_empty:
  "quartiles [] = Inl (LogicError ''No data to compute quartiles on'')"
  by (simp add: quartiles_def)

text \<open>
  C3 (amended). For every half-open range \<open>[lo, hi)\<close> inside the vector whose length \<open>n\<close>
  satisfies \<open>1 \<le> n < 2^31\<close>, sorted or not, \<open>median\<close> returns the element of the range
  at index \<open>(n-1)/2\<close> when \<open>n\<close> is odd, and the average of its elements at indices
  \<open>(n-1)/2\<close> and \<open>(n-1)/2 + 1\<close> when \<open>n\<close> is even. For even \<open>n\<close> these are the indices
  \<open>n/2 - 1\<close> and \<open>n/2\<close>, the two middle elements, so the value is the usual median of
  the range.
\<close>

theorem median_selects:
  assumes "lo < hi" and "hi \<le> length a" and "hi - lo < 2 ^ 31"
  shows "median a (int lo) (int hi) =
           Inr (let r = take (hi - lo) (drop lo a); n = length r in
                if odd n then r ! ((n - 1) div 2)
                else (r ! ((n - 1) div 2) + r ! ((n - 1) div 2 + 1)) / 2) \<and>
         median a (int lo) (int hi) =
           Inr (let r = take (hi - lo) (drop lo a); n = length r in
                if odd n then r ! (n div 2)
                else (r ! (n div 2 - 1) + r ! (n div 2)) / 2)"
proof -
  define n where "n = hi - lo"
  have n: "0 < n" "lo + n \<le> length a"
    using assms by (simp_all add: n_def)
  have len: "length (take n (drop lo a)) = n"
    using n by simp
  have i1: "(n - 1) div 2 < n"
    using n by linarith
  have i2: "even n \<Longrightarrow> (n - 1) div 2 + 1 < n"
    using n by (elim evenE) auto
  have o: "odd n \<Longrightarrow> (n - 1) div 2 = n div 2"
    by (elim oddE) simp
  have e: "even n \<Longrightarrow> (n - 1) div 2 = n div 2 - 1 \<and> (n - 1) div 2 + 1 = n div 2"
    using n by (auto elim!: evenE)
  have first: "median a (int lo) (int hi) =
           Inr (let r = take n (drop lo a); n = length r in
                if odd n then r ! ((n - 1) div 2)
                else (r ! ((n - 1) div 2) + r ! ((n - 1) div 2 + 1)) / 2)"
    unfolding median_nat [OF assms] n_def [symmetric] Let_def len
    using i1 i2 n by (simp add: add.commute)
  have "(let r = take n (drop lo a); n = length r in
                if odd n then r ! ((n - 1) div 2)
                else (r ! ((n - 1) div 2) + r ! ((n - 1) div 2 + 1)) / 2) =
        (let r = take n (drop lo a); n = length r in
                if odd n then r ! (n div 2)
                else (r ! (n div 2 - 1) + r ! (n div 2)) / 2)"
    unfolding Let_def len using o e by (cases "odd n") simp_all
  with first show ?thesis
    unfolding n_def by simp
qed

text \<open>The ranges \<open>[0, 4)\<close> (even length) and \<open>[1, 4)\<close> (odd length) of \<open>[1, 2, 3, 4]\<close>.\<close>

theorem median_selects_witness:
  "(0::nat) < 4 \<and> 4 \<le> length [1, 2, 3, 4 :: real] \<and> (4::nat) - 0 < 2 ^ 31 \<and>
   median [1, 2, 3, 4] 0 4 = Inr (5 / 2) \<and>
   (1::nat) < 4 \<and> (4::nat) - 1 < 2 ^ 31 \<and> median [1, 2, 3, 4] 1 4 = Inr 3"
  using median_selects [of 0 4 "[1, 2, 3, 4]"] median_selects [of 1 4 "[1, 2, 3, 4]"] by simp

text \<open>
  The claim as stated fails on a range of \<open>2^31 + 1\<close> elements: \<open>int n\<close> becomes
  \<open>-(2^31 - 1)\<close>, \<open>(n-1) % 2\<close> is 0 and the element read is \<open>begin[-2^30]\<close>. And on the
  even-length range \<open>[1, 2, 3, 4]\<close> the value is the average of the elements at \<open>n/2 - 1\<close>
  and \<open>n/2\<close>, which is the textbook median.
\<close>

theorem median_selects_counterexample:
  "median (replicate 2147483649 0) 0 2147483649 = Inl OutOfRange \<and>
   median [1, 2, 3, 4] 0 4 = Inr (([1, 2, 3, 4] ! (4 div 2 - 1) + [1, 2, 3, 4] ! (4 div 2)) / 2)"
  by (simp add: quantile_defs c_int_defs)

text \<open>
  C2 (amended). Applied to the values 1, 2, 3, 4, 5 in any arrival order, \<open>quartiles\<close>
  returns minimum 1, first quartile 1.5, median 3, third quartile 4 and maximum 5: the
  second half is the range \<open>[n/2, n)\<close>, here \<open>[3, 4, 5]\<close>, whose median is 4.
\<close>

theorem quartiles_five_values:
  assumes "mset xs = mset [1, 2, 3, 4, 5 :: real]"
  shows "quartiles xs = Inr [1, 3 / 2, 3, 4, 5]"
proof -
  have "sort xs = [1, 2, 3, 4, 5]"
    using assms by (intro properties_for_sort) simp_all
  moreover have "length xs = 5"
    using mset_eq_length [OF assms] by simp
  ultimately show ?thesis
    by (simp add: quantile_defs c_int_defs)
qed

theorem quartiles_five_values_witness:
  "mset [5, 3, 1, 4, 2] = mset [1, 2, 3, 4, 5 :: real] \<and>
   quartiles [5, 3, 1, 4, 2] = Inr [1, 3 / 2, 3, 4, 5]"
proof -
  have p: "mset [5, 3, 1, 4, 2] = mset [1, 2, 3, 4, 5 :: real]"
    by simp
  from p quartiles_five_values [OF p] show ?thesis by simp
qed

text \<open>The third quartile of the sorted sample is not 4.5.\<close>

theorem quartiles_five_values_counterexample:
  "quartiles [1, 2, 3, 4, 5] \<noteq> Inr [1, 3 / 2, 3, 9 / 2, 5]"
  by (simp add: quantile_defs c_int_defs)

text \<open>
  C6 (amended). For every sample of \<open>n\<close> values with \<open>2 \<le> n < 2^31\<close>, \<open>quartiles\<close>
  returns five values and they satisfy
  \<open>minimum \<le> Q1 \<le> median \<le> Q3 \<le> maximum\<close>.
\<close>

theorem quartiles_ordered:
  assumes "2 \<le> length xs" and "length xs < 2 ^ 31"
  shows "\<exists>mn q1 md q3 mx. quartiles xs = Inr [mn, q1, md, q3, mx] \<and>
           mn \<le> q1 \<and> q1 \<le> md \<and> md \<le> q3 \<and> q3 \<le> mx"
proof -
  define a where "a = sort xs"
  define n where "n = length xs"
  define h where "h = n div 2"
  have s: "sorted a" and l: "length a = n"
    by (simp_all add: a_def n_def)
  have n: "2 \<le> n" "n < 2 ^ 31"
    using assms by (simp_all add: n_def)
  have h: "0 < h" "h < n"
    using n by (simp_all add: h_def)
  obtain md where md: "median a 0 (int n) = Inr md" "a ! (h - 1) \<le> md" "md \<le> a ! h"
    using median_middle [OF s] n unfolding l h_def by blast
  have "\<exists>v. median a (int 0) (int h) = Inr v \<and> a ! 0 \<le> v \<and> v \<le> a ! (h - 1)"
    using h n by (intro median_between [OF s]) (simp_all add: l)
  then obtain q1 where q1: "median a 0 (int h) = Inr q1" "a ! 0 \<le> q1" "q1 \<le> a ! (h - 1)"
    by auto
  have "\<exists>v. median a (int h) (int n) = Inr v \<and> a ! h \<le> v \<and> v \<le> a ! (n - 1)"
    using h n by (intro median_between [OF s]) (simp_all add: l)
  then obtain q3 where q3: "median a (int h) (int n) = Inr q3" "a ! h \<le> q3" "q3 \<le> a ! (n - 1)"
    by auto
  have d0: "deref a 0 = Inr (a ! 0)"
    using n by (simp add: deref_def l)
  have d4: "deref a (int n - 1) = Inr (a ! (n - 1))"
    using n by (simp add: deref_def l nat_diff_distrib')
  have "quartiles xs = Inr [a ! 0, q1, md, q3, a ! (n - 1)]"
    using n unfolding quartiles_def Let_def a_def [symmetric] n_def [symmetric] h_def [symmetric]
    by (simp add: d0 d4 md(1) q1(1) q3(1) and_then_def)
  then show ?thesis
    using md q1 q3 by auto
qed

theorem quartiles_ordered_witness:
  "2 \<le> length [5, 3, 1, 4, 2 :: real] \<and> length [5, 3, 1, 4, 2 :: real] < 2 ^ 31 \<and>
   (\<exists>mn q1 md q3 mx. quartiles [5, 3, 1, 4, 2] = Inr [mn, q1, md, q3, mx] \<and>
           mn \<le> q1 \<and> q1 \<le> md \<and> md \<le> q3 \<and> q3 \<le> mx)"
  using quartiles_ordered [of "[5, 3, 1, 4, 2]"] by simp

text \<open>
  Two non-empty samples for which no five values are returned: \<open>2^31 + 1\<close> zeros, where
  \<open>int n\<close> in \<open>median\<close> is negative, and a single value, where the first quartile is
  taken over the empty range \<open>[0, 0)\<close>.
\<close>

theorem quartiles_ordered_counterexample:
  "replicate 2147483649 (0::real) \<noteq> [] \<and>
   quartiles (replicate 2147483649 0) = Inl OutOfRange \<and>
   [7 :: real] \<noteq> [] \<and> quartiles [7] = Inl OutOfRange"
  by (simp add: quantile_defs c_int_defs)

text \<open>
  C10. For a sample of exactly one element every element access of \<open>quartiles\<close> should be
  within bounds. It is not: the first quartile is \<open>median\<close> over the empty range
  \<open>[0, 0)\<close>, where \<open>n - 1 = -1\<close>, \<open>(n-1) % 2 = -1\<close> and \<open>(n-1)/2 = 0\<close>, so the else
  branch reads \<open>begin[0]\<close> and \<open>begin[1]\<close>, and index 1 is outside a vector of size 1.
\<close>

theorem quartiles_single_out_of_range:
  "median (sort [x]) 0 (int (length [x] div 2)) = Inl OutOfRange \<and>
   deref (sort [x]) 0 = Inr x \<and> deref (sort [x]) 1 = Inl OutOfRange \<and>
   quartiles [x] = Inl OutOfRange"
  by (simp add: quantile_defs c_int_defs)

subsection \<open>The marker scan\<close>

lemma memchr_whole:
  "memchr s c (length s) =
     Inr (if word_of_int c \<in> set s
          then Some (length (takeWhile (\<lambda>x. x \<noteq> word_of_int c) s)) else None)"
  by (induction s) auto

lemma nullWriter_chunk:
  "nullWriter chunk 1 (length chunk) r = Inr (length chunk, r \<or> 128 \<in> set chunk)"
  by (simp add: nullWriter_def memchr_whole SpecialRecommendationMarker_def and_then_def)

lemma perform_body:
  "curl_easy_perform_body chunks r = Inr (r \<or> 128 \<in> set (concat chunks))"
proof (induction chunks arbitrary: r)
  case Nil
  show ?case by simp
next
  case (Cons chunk chunks)
  have "curl_easy_perform_body (chunk # chunks) r =
          curl_easy_perform_body chunks (r \<or> 128 \<in> set chunk)"
    unfolding curl_easy_perform_body.simps nullWriter_chunk by simp
  also have "\<dots> = Inr ((r \<or> 128 \<in> set chunk) \<or> 128 \<in> set (concat chunks))"
    by (rule Cons.IH)
  finally show ?case by (simp add: disj_assoc)
qed

text \<open>
  C5. For a response body delivered as any sequence of chunks, the flag of the request
  ends up true exactly when some byte of the whole body is 128. The flag is false before
  the first chunk, a callback sets it when its chunk holds the marker and otherwise
  leaves it as it was, and once true it stays true to the end of the request.
\<close>

theorem signal_iff_marker:
  "httpClientMain_request chunks = Inr (128 \<in> set (concat chunks)) \<and>
   httpClientMain_request [] = Inr False \<and>
   nullWriter chunk 1 (length chunk) r = Inr (length chunk, r \<or> 128 \<in> set chunk) \<and>
   curl_easy_perform_body chunks True = Inr True"
  unfolding httpClientMain_request_def perform_body nullWriter_chunk by simp

text \<open>What one iteration of a client thread publishes.\<close>

lemma httpClientMain_iteration_publishes:
  "httpClientMain_iteration chunks err latency control =
     Inr (httpClientMain_publish err (128 \<in> set (concat chunks)) latency control)"
  by (simp add: httpClientMain_iteration_def httpClientMain_request_def perform_body
      and_then_def)

subsection \<open>The shared counters\<close>

lemma publish_fields:
  "numErrors (httpClientMain_publish e r l c) = numErrors c + (if e then 1 else 0)"
  "numRecommendations (httpClientMain_publish e r l c) =
     numRecommendations c + (if r then 1 else 0)"
  "latencies (httpClientMain_publish e r l c) = latencies c @ [l]"
  by (simp_all add: httpClientMain_publish_def Let_def)

lemma publish_all_numErrors:
  "numErrors (publish_all ops c) = numErrors c + word_of_nat (length (filter fst ops))"
  by (induction ops c rule: publish_all.induct) (simp_all add: publish_fields)

lemma publish_all_numRecommendations:
  "numRecommendations (publish_all ops c) =
     numRecommendations c + word_of_nat (length (filter (\<lambda>op. fst (snd op)) ops))"
  by (induction ops c rule: publish_all.induct) (simp_all add: publish_fields)

lemma publish_all_latencies:
  "latencies (publish_all ops c) = latencies c @ map (\<lambda>op. snd (snd op)) ops"
  by (induction ops c rule: publish_all.induct) (simp_all add: publish_fields)

text \<open>
  What a drain returns after any list of outcomes published into a drained control
  block: the counts as \<open>int\<close>s, that is reduced modulo \<open>2^32\<close> into \<open>[-2^31, 2^31)\<close>,
  and the latencies in lock order.
\<close>

lemma drain_after_publish:
  "fst (main_drain (publish_all ops (snd (main_drain c)))) =
     (to_int (int (length (filter fst ops))),
      to_int (int (length (filter (\<lambda>op. fst (snd op)) ops))),
      map (\<lambda>op. snd (snd op)) ops)"
  by (simp add: main_drain_def publish_all_numErrors publish_all_numRecommendations
      publish_all_latencies sint_of_nat_32)

text \<open>The order in which the threads take the lock changes nothing but the order of
  the latencies.\<close>

lemma drain_order_irrelevant:
  assumes "mset ops = mset ops'"
  shows "(case fst (main_drain (publish_all ops (snd (main_drain c)))) of
            (nerr, nrec, lats) \<Rightarrow>
          case fst (main_drain (publish_all ops' (snd (main_drain c)))) of
            (nerr', nrec', lats') \<Rightarrow>
              nerr = nerr' \<and> nrec = nrec' \<and> mset lats = mset lats')"
proof -
  have f: "length (filter P ops) = length (filter P ops')" for P
  proof -
    have "mset (filter P ops) = mset (filter P ops')"
      unfolding mset_filter assms ..
    then show ?thesis by (rule mset_eq_length)
  qed
  show ?thesis
    unfolding drain_after_publish by (simp add: f assms)
qed

text \<open>
  C4 (amended). For every list of \<open>N\<close> outcomes published in any order into a drained
  control block, the following drain returns a latency sequence of length exactly \<open>N\<close>
  (an errored outcome contributes its latency too), \<open>numErrors\<close> equal to the number
  of outcomes with error set whenever that number is below \<open>2^31\<close>, and
  \<open>numRecommendations\<close> equal to the number with the flag set whenever that number is
  below \<open>2^31\<close>. In general each returned count is the number reduced modulo \<open>2^32\<close>
  into the range of \<open>int\<close>.
\<close>

theorem drain_counts:
  "(case fst (main_drain (publish_all ops (snd (main_drain c)))) of
      (nerr, nrec, lats) \<Rightarrow>
        length lats = length ops \<and>
        lats = map (\<lambda>op. snd (snd op)) ops \<and>
        nerr = to_int (int (length (filter fst ops))) \<and>
        nrec = to_int (int (length (filter (\<lambda>op. fst (snd op)) ops))) \<and>
        (length (filter fst ops) < 2 ^ 31 \<longrightarrow> nerr = int (length (filter fst ops))) \<and>
        (length (filter (\<lambda>op. fst (snd op)) ops) < 2 ^ 31 \<longrightarrow>
           nrec = int (length (filter (\<lambda>op. fst (snd op)) ops))))"
  by (simp add: drain_after_publish to_int_def)

text \<open>
  Three outcomes, a timeout, a flagged success and a flagged error, published into a
  control block that held older data before it was drained.
\<close>

theorem drain_counts_witness:
  "length (filter fst [(True, False, 9), (False, True, 1 / 4), (True, True, 1 / 2 :: real)])
     < 2 ^ 31 \<and>
   length (filter (\<lambda>op. fst (snd op))
     [(True, False, 9), (False, True, 1 / 4), (True, True, 1 / 2 :: real)]) < 2 ^ 31 \<and>
   fst (main_drain (publish_all [(True, False, 9), (False, True, 1 / 4), (True, True, 1 / 2)]
     (snd (main_drain \<lparr>url = ''http://localhost/'', timeout = 9, running = True,
        numErrors = 5, numRecommendations = 7, latencies = [1]\<rparr>)))) =
     (2, 2, [9, 1 / 4, 1 / 2])"
  using drain_counts [of "[(True, False, 9), (False, True, 1 / 4), (True, True, 1 / 2)]"
      "\<lparr>url = ''http://localhost/'', timeout = 9, running = True,
        numErrors = 5, numRecommendations = 7, latencies = [1]\<rparr>"]
  by (simp add: to_int_def split: prod.splits)

text \<open>
  After \<open>2^31\<close> errored outcomes the counter holds \<open>2^31\<close>, which the drain reads into
  an \<open>int\<close> as \<open>-2^31\<close>.
\<close>

theorem drain_counts_counterexample:
  "length (filter fst (replicate 2147483648 (True, False, 0 :: real))) = 2147483648 \<and>
   fst (fst (main_drain (publish_all (replicate 2147483648 (True, False, 0))
      (snd (main_drain \<lparr>url = [], timeout = 9, running = True, numErrors = 0,
          numRecommendations = 0, latencies = []\<rparr>))))) = - 2147483648"
  by (simp add: drain_after_publish to_int_def)

text \<open>
  C7. The drain clears \<open>numErrors\<close>, \<open>numRecommendations\<close> and \<open>latencies\<close> in the one
  locked block. So after a drain all three are zero or empty, a second drain with no
  outcome published in between returns \<open>(0, 0, [])\<close>, and it leaves the control block as
  the first drain left it.
\<close>

theorem drain_twice:
  "numErrors (snd (main_drain c)) = 0 \<and>
   numRecommendations (snd (main_drain c)) = 0 \<and>
   latencies (snd (main_drain c)) = [] \<and>
   fst (main_drain (snd (main_drain c))) = (0, 0, []) \<and>
   snd (main_drain (snd (main_drain c))) = snd (main_drain c)"
  by (simp add: main_drain_def)

subsection \<open>The report of a tick\<close>

text \<open>
  C1. A tick that drains no latency should still print a report. It does not: nothing
  guards \<open>numRecommendations * 100 / latencies.size()\<close>, so with an empty sample the
  iteration ends in a fault before anything is printed, for every control block and every
  pair of clock readings. For the control block of a fresh start and one second between
  the readings the fault is the division by zero. The call of \<open>quartiles\<close> on the next
  line is not guarded either: on the drained empty sample it throws.
\<close>

theorem tick_without_outcomes:
  "fst (main_tick (c\<lparr>latencies := []\<rparr>) reportTime lastReportTime) =
     (if reportTime - lastReportTime = 0 then Inl FloatToInt
      else if \<not> in_int (sint (numRecommendations c) * 100) then Inl SignedOverflow
      else Inl DivisionByZero) \<and>
   fst (main_tick \<lparr>url = ''http://localhost/'', timeout = 9, running = True, numErrors = 0,
          numRecommendations = 0, latencies = []\<rparr> 1 0) = Inl DivisionByZero \<and>
   quartiles (snd (snd (fst (main_drain (c\<lparr>latencies := []\<rparr>))))) =
     Inl (LogicError ''No data to compute quartiles on'')"
  by (simp add: report_defs quartiles_def and_then_def in_int_def INT_MIN_def INT_MAX_def)

subsection \<open>Startup\<close>

text \<open>
  C9 (amended). \<open>--help\<close> prints the description of the options and returns 1 before
  the control block is set up or any thread is started. Nothing else is checked at
  startup: without \<open>--help\<close> and with a positive concurrency (100 when the option is
  absent), \<open>main\<close> starts that many client threads on the given URL, or on the empty
  string when \<open>--url\<close> is absent, and does not exit.
\<close>

theorem startup_checks_help_only:
  "(opt_help opts \<longrightarrow> main_startup opts = Inr (Exit 1 [OptionsDescription])) \<and>
   (\<not> opt_help opts \<longrightarrow> 0 < concurrency_of opts \<longrightarrow>
      main_startup opts =
        Inr (Started \<lparr>url = url_of opts, timeout = timeout_of opts, running = True,
                      numErrors = 0, numRecommendations = 0, latencies = []\<rparr>
               (nat (concurrency_of opts))))"
  by (simp add: main_startup_def)

theorem startup_checks_help_only_witness:
  "opt_help \<lparr>opt_help = True, opt_url = None, opt_concurrency = None, opt_timeout = None\<rparr> \<and>
   main_startup \<lparr>opt_help = True, opt_url = None, opt_concurrency = None, opt_timeout = None\<rparr> =
     Inr (Exit 1 [OptionsDescription]) \<and>
   \<not> opt_help \<lparr>opt_help = False, opt_url = Some ''http://localhost/'',
       opt_concurrency = Some 2, opt_timeout = None\<rparr> \<and>
   0 < concurrency_of \<lparr>opt_help = False, opt_url = Some ''http://localhost/'',
       opt_concurrency = Some 2, opt_timeout = None\<rparr> \<and>
   main_startup \<lparr>opt_help = False, opt_url = Some ''http://localhost/'',
       opt_concurrency = Some 2, opt_timeout = None\<rparr> =
     Inr (Started \<lparr>url = ''http://localhost/'', timeout = 9, running = True,
                    numErrors = 0, numRecommendations = 0, latencies = []\<rparr> 2)"
  using
    startup_checks_help_only
      [of "\<lparr>opt_help = True, opt_url = None, opt_concurrency = None, opt_timeout = None\<rparr>"]
    startup_checks_help_only
      [of "\<lparr>opt_help = False, opt_url = Some ''http://localhost/'',
             opt_concurrency = Some 2, opt_timeout = None\<rparr>"]
  by (simp add: concurrency_of_def url_of_def timeout_of_def)

text \<open>
  No option given at all: the URL is missing, yet \<open>main\<close> does not exit and starts 100
  client threads on the empty URL.
\<close>

theorem startup_missing_url_counterexample:
  "opt_url \<lparr>opt_help = False, opt_url = None, opt_concurrency = None, opt_timeout = None\<rparr>
     = None \<and>
   main_startup \<lparr>opt_help = False, opt_url = None, opt_concurrency = None, opt_timeout = None\<rparr> =
     Inr (Started \<lparr>url = [], timeout = 9, running = True,
                    numErrors = 0, numRecommendations = 0, latencies = []\<rparr> 100)"
  by (simp add: startup_defs)

end
